theory Spec2Isabelle
  imports Main "HOL-Library.Word"
begin

section \<open>Special profiles of the profile package\<close>

text \<open>
  A shallow embedding of the special-profile code of package \<open>profile\<close>:
  \<open>updateSpecialProfileMetadata\<close>, \<open>getSpecialProfile\<close>,
  \<open>specialProfileNeedsReset\<close> and \<open>canBeUpgraded\<close>. A \<open>*Profile\<close> is an
  optional record (\<open>None\<close> is the nil pointer); a function that writes through the pointer
  returns the record as it is after the call; dereferencing nil is the error value
  \<open>NilPointerDereference\<close>; the lines handed to the logger are appended to a log that is
  passed in and returned.
\<close>

subsection \<open>Data model\<close>

type_synonym int64 = "64 word"

text \<open>
  The source scope of a profile. The special-profile code names \<open>SourceLocal\<close>
  only; the other scopes are declared elsewhere in the package.
\<close>

datatype profileSource = SourceLocal | SourceSynced | SourceOther string

text \<open>
  The option keys used by \<open>getSpecialProfile\<close>. Their string values are declared
  elsewhere in the package; they are opaque here, and pairwise distinct (Go rejects a map
  literal with a repeated constant key).
\<close>

datatype cfgKey =
    CfgOptionDefaultActionKey
  | CfgOptionServiceEndpointsKey
  | CfgOptionFilterListsKey
  | CfgOptionEndpointsKey

text \<open>The values of a \<open>map[string]interface{}\<close> literal in the code: a string or a \<open>[]string\<close>.\<close>

datatype cfgValue = StringValue string | StringSlice "string list"

type_synonym settings = "cfgKey \<rightharpoonup> cfgValue"

text \<open>
  The fields of \<open>Profile\<close> that the code reads or writes, together with \<open>Settings\<close>.
  Functions are stated on the record scheme, so that whatever further fields the struct
  has are carried along in the extension.
\<close>

record Profile =
  ID :: string
  Source :: profileSource
  Name :: string
  Description :: string
  LinkedPath :: string
  Internal :: bool
  Settings :: settings
  Created :: int64
  LastEdited :: int64

datatype panic = NilPointerDereference

subsection \<open>The constants\<close>

definition UnidentifiedProfileID :: string where
  "UnidentifiedProfileID = ''_unidentified''"

definition UnidentifiedProfileName :: string where
  "UnidentifiedProfileName = ''Unidentified Processes''"

definition UnidentifiedProfileDescription :: string where
  "UnidentifiedProfileDescription =
     ''This is not a real application, but a collection of connections that could not be attributed to a process. This could be because the Portmaster failed to identify the process, or simply because there is no process waiting for an incoming connection.''
     @ [CHR 0x0A, CHR 0x0A]
     @ ''Seeing a lot of incoming connections here is normal, as this resembles the network chatter of other devices.''
     @ [CHR 0x0A]"

definition SystemProfileID :: string where
  "SystemProfileID = ''_system''"

definition SystemProfileName :: string where
  "SystemProfileName = ''Operating System''"

definition SystemProfileDescription :: string where
  "SystemProfileDescription = ''This is the operation system itself.''"

definition SystemResolverProfileID :: string where
  "SystemResolverProfileID = ''_system-resolver''"

definition SystemResolverProfileName :: string where
  "SystemResolverProfileName = ''System DNS Client''"

definition SystemResolverProfileDescription :: string where
  "SystemResolverProfileDescription =
     ''The System DNS Client is a system service that requires special handling. For regular network connections, the configured settings will apply as usual, but DNS requests coming from the System DNS Client are handled in a special way, as they could actually be coming from any other application on the system.''
     @ [CHR 0x0A, CHR 0x0A]
     @ ''In order to respect the app settings of the actual application, DNS requests from the System DNS Client are only subject to the following settings:''
     @ [CHR 0x0A, CHR 0x0A]
     @ ''- Outgoing Rules (without global rules)'' @ [CHR 0x0A]
     @ ''- Block Bypassing'' @ [CHR 0x0A]
     @ ''- Filter Lists'' @ [CHR 0x0A]
     @ [CHR 0x0A]
     @ ''If you think you might have messed up the settings of the System DNS Client, just delete the profile below to reset it to the defaults.''
     @ [CHR 0x0A]"

definition PortmasterProfileID :: string where
  "PortmasterProfileID = ''_portmaster''"

definition PortmasterProfileName :: string where
  "PortmasterProfileName = ''Portmaster Core Service''"

definition PortmasterProfileDescription :: string where
  "PortmasterProfileDescription =
     ''This is the Portmaster itself, which runs in the background as a system service. App specific settings have no effect.''"

definition PortmasterAppProfileID :: string where
  "PortmasterAppProfileID = ''_portmaster-app''"

definition PortmasterAppProfileName :: string where
  "PortmasterAppProfileName = ''Portmaster User Interface''"

definition PortmasterAppProfileDescription :: string where
  "PortmasterAppProfileDescription = ''This is the Portmaster UI Windows.''"

definition PortmasterNotifierProfileID :: string where
  "PortmasterNotifierProfileID = ''_portmaster-notifier''"

definition PortmasterNotifierProfileName :: string where
  "PortmasterNotifierProfileName = ''Portmaster Notifier''"

definition PortmasterNotifierProfileDescription :: string where
  "PortmasterNotifierProfileDescription = ''This is the Portmaster UI Tray Notifier.''"

subsection \<open>updateSpecialProfileMetadata\<close>

text \<open>
  The result is \<open>(ok, changed, profile after the call)\<close>. The \<open>switch\<close> on
  \<open>profile.ID\<close> either fixes \<open>newProfileName\<close> and \<open>newDescription\<close> or returns
  \<open>false, false\<close>; the three \<open>if\<close> statements follow, each on the record as the
  previous one left it.
\<close>

definition updateSpecialProfileMetadata ::
  "'a Profile_scheme option \<Rightarrow> string \<Rightarrow> panic + (bool \<times> bool \<times> 'a Profile_scheme)" where
  "updateSpecialProfileMetadata profile binaryPath =
     (case profile of
        None \<Rightarrow> Inl NilPointerDereference
      | Some p \<Rightarrow>
          (case (if ID p = UnidentifiedProfileID then
                   Some (UnidentifiedProfileName, UnidentifiedProfileDescription)
                 else if ID p = SystemProfileID then
                   Some (SystemProfileName, SystemProfileDescription)
                 else if ID p = SystemResolverProfileID then
                   Some (SystemResolverProfileName, SystemResolverProfileDescription)
                 else if ID p = PortmasterProfileID then
                   Some (PortmasterProfileName, PortmasterProfileDescription)
                 else if ID p = PortmasterAppProfileID then
                   Some (PortmasterAppProfileName, PortmasterAppProfileDescription)
                 else if ID p = PortmasterNotifierProfileID then
                   Some (PortmasterNotifierProfileName, PortmasterNotifierProfileDescription)
                 else None) of
             None \<Rightarrow> Inr (False, False, p)
           | Some (newProfileName, newDescription) \<Rightarrow>
               (let (p1, changed1) =
                      (if Name p \<noteq> newProfileName
                       then (p\<lparr>Name := newProfileName\<rparr>, True) else (p, False));
                    (p2, changed2) =
                      (if Description p1 \<noteq> newDescription
                       then (p1\<lparr>Description := newDescription\<rparr>, True) else (p1, changed1));
                    (p3, changed3) =
                      (if LinkedPath p2 \<noteq> binaryPath
                       then (p2\<lparr>LinkedPath := binaryPath\<rparr>, True) else (p2, changed2))
                in Inr (True, changed3, p3))))"

subsection \<open>getSpecialProfile\<close>

text \<open>
  \<open>New\<close> is defined elsewhere in the package, so \<open>getSpecialProfile\<close> takes the
  constructor it calls as its first argument \<open>new\<close>: source, id, linked path and the
  settings bundle (\<open>None\<close> is the nil map). The result is \<open>None\<close> for the nil pointer of the
  \<open>default\<close> case.
\<close>

definition getSpecialProfile ::
  "(profileSource \<Rightarrow> string \<Rightarrow> string \<Rightarrow> settings option \<Rightarrow> 'a Profile_scheme)
     \<Rightarrow> string \<Rightarrow> string \<Rightarrow> 'a Profile_scheme option" where
  "getSpecialProfile new profileID linkedPath =
     (if profileID = UnidentifiedProfileID then
        Some (new SourceLocal UnidentifiedProfileID linkedPath None)
      else if profileID = SystemProfileID then
        Some (new SourceLocal SystemProfileID linkedPath None)
      else if profileID = SystemResolverProfileID then
        Some (new SourceLocal SystemResolverProfileID linkedPath
               (Some [CfgOptionDefaultActionKey \<mapsto> StringValue ''permit'',
                      CfgOptionServiceEndpointsKey \<mapsto>
                        StringSlice [''+ Localhost'', ''+ LAN UDP/5353'',
                                     ''+ LAN UDP/5355'', ''+ LAN UDP/1900''],
                      CfgOptionFilterListsKey \<mapsto> StringSlice []]))
      else if profileID = PortmasterProfileID then
        Some ((new SourceLocal PortmasterProfileID linkedPath None)\<lparr>Internal := True\<rparr>)
      else if profileID = PortmasterAppProfileID then
        Some ((new SourceLocal PortmasterAppProfileID linkedPath
                (Some [CfgOptionDefaultActionKey \<mapsto> StringValue ''block'',
                       CfgOptionEndpointsKey \<mapsto>
                         StringSlice [''+ Localhost'', ''+ .safing.io'']]))
              \<lparr>Internal := True\<rparr>)
      else if profileID = PortmasterNotifierProfileID then
        Some ((new SourceLocal PortmasterNotifierProfileID linkedPath
                (Some [CfgOptionDefaultActionKey \<mapsto> StringValue ''block'',
                       CfgOptionEndpointsKey \<mapsto> StringSlice [''+ Localhost'']]))
              \<lparr>Internal := True\<rparr>)
      else None)"

text \<open>
  Modelled from the spec: the constructor \<open>New\<close> of the persistence layer, whose
  definition is not among the source files. The spec describes it as the primitive that allocates a new record
  given a source scope, identity key, linked path and an initial settings bundle, nil
  meaning no overrides. The four arguments fill their fields; \<open>Created\<close> is the time of
  the call, given as \<open>now\<close>; \<open>LastEdited\<close> is the never-edited sentinel 0; the fields
  the constructor is given nothing for (\<open>Name\<close>, \<open>Description\<close>, \<open>Internal\<close>) hold
  Go's zero values.
\<close>

definition New :: "int64 \<Rightarrow> profileSource \<Rightarrow> string \<Rightarrow> string \<Rightarrow> settings option \<Rightarrow> Profile" where
  "New now source profileID linkedPath customConfig =
     \<lparr>ID = profileID, Source = source, Name = [], Description = [], LinkedPath = linkedPath,
      Internal = False,
      Settings = (case customConfig of None \<Rightarrow> Map.empty | Some c \<Rightarrow> c),
      Created = now, LastEdited = 0\<rparr>"

subsection \<open>The library call \<open>time.Parse("2.1.2006", value)\<close>\<close>

text \<open>
  \<open>canBeUpgraded\<close> parses its date with Go's \<open>time.Parse\<close> under the layout
  \<open>2.1.2006\<close>. The layout splits into the chunks day (\<open>2\<close>), \<open>.\<close>, month
  (\<open>1\<close>), \<open>.\<close>, four-digit year (\<open>2006\<close>); the definitions below follow the
  helpers of package \<open>time\<close> that \<open>Parse\<close> runs on these chunks (\<open>isDigit\<close>,
  \<open>getnum\<close>, \<open>cutspace\<close>, \<open>skip\<close>, \<open>leadingInt\<close>, \<open>atoi\<close>,
  \<open>isLeap\<close>, \<open>daysIn\<close>), then the validation of the day and the construction of
  the instant, midnight UTC of the date.
\<close>

datatype numError = errBad | errLeadingInt | errAtoi

definition isDigit :: "string \<Rightarrow> nat \<Rightarrow> bool" where
  "isDigit s i =
     (if length s \<le> i then False
      else (48::nat) \<le> of_char (s ! i) \<and> of_char (s ! i) \<le> (57::nat))"

definition digitValue :: "char \<Rightarrow> int" where
  "digitValue c = int (of_char c) - 48"

definition getnum :: "string \<Rightarrow> bool \<Rightarrow> numError + (int \<times> string)" where
  "getnum s fixed =
     (if \<not> isDigit s 0 then Inl errBad
      else if \<not> isDigit s 1 then
        (if fixed then Inl errBad else Inr (digitValue (s ! 0), drop 1 s))
      else Inr (digitValue (s ! 0) * 10 + digitValue (s ! 1), drop 2 s))"

definition cutspace :: "string \<Rightarrow> string" where
  "cutspace s = dropWhile (\<lambda>c. c = CHR '' '') s"

function skip :: "string \<Rightarrow> string \<Rightarrow> numError + string" where
  "skip v [] = Inr v"
| "skip v (c # cs) =
     (if c = CHR '' '' then
        (if v \<noteq> [] \<and> hd v \<noteq> CHR '' '' then Inl errBad
         else skip (cutspace v) (cutspace cs))
      else if v = [] \<or> hd v \<noteq> c then Inl errBad
      else skip (tl v) cs)"
  by pat_completeness auto
termination
  by (relation "measure (\<lambda>(v, prefix). length prefix)")
     (auto simp: cutspace_def length_dropWhile_le le_imp_less_Suc)

fun leadingInt :: "nat \<Rightarrow> string \<Rightarrow> numError + (nat \<times> string)" where
  "leadingInt x [] = Inr (x, [])"
| "leadingInt x (c # s) =
     (if (of_char c :: nat) < 48 \<or> 57 < (of_char c :: nat) then Inr (x, c # s)
      else if 2 ^ 63 div 10 < x then Inl errLeadingInt
      else (let x' = x * 10 + of_char c - 48
            in if 2 ^ 63 < x' then Inl errLeadingInt else leadingInt x' s))"

definition atoi :: "string \<Rightarrow> numError + int" where
  "atoi s =
     (let neg = (s \<noteq> [] \<and> hd s = CHR ''-'');
          s1 = (if s \<noteq> [] \<and> (hd s = CHR ''-'' \<or> hd s = CHR ''+'') then tl s else s)
      in case leadingInt 0 s1 of
           Inl e \<Rightarrow> Inl errAtoi
         | Inr (q, rem) \<Rightarrow>
             if rem \<noteq> [] then Inl errAtoi
             else Inr (sint (if neg then - (of_nat q :: 64 word) else of_nat q)))"

definition isLeap :: "int \<Rightarrow> bool" where
  "isLeap year = (year mod 4 = 0 \<and> (year mod 100 \<noteq> 0 \<or> year mod 400 = 0))"

definition daysBefore :: "int list" where
  "daysBefore = [0, 31, 59, 90, 120, 151, 181, 212, 243, 273, 304, 334, 365]"

definition daysIn :: "int \<Rightarrow> int \<Rightarrow> int" where
  "daysIn m year =
     (if m = 2 \<and> isLeap year then 29
      else daysBefore ! nat m - daysBefore ! nat (m - 1))"

text \<open>
  The instant \<open>Date(year, month, day, 0, 0, 0, 0, UTC)\<close>, for a date that \<open>Parse\<close> has
  validated, and its \<open>Unix()\<close>: the days from 1 January 1970 in the proleptic Gregorian
  calendar, times the 86400 seconds of a day.
\<close>

datatype Time = Date int int int

definition leapDaysBefore :: "int \<Rightarrow> int" where
  "leapDaysBefore year = (year - 1) div 4 - (year - 1) div 100 + (year - 1) div 400"

definition daysSinceUnixEpoch :: "int \<Rightarrow> int \<Rightarrow> int \<Rightarrow> int" where
  "daysSinceUnixEpoch year m d =
     365 * (year - 1970) + (leapDaysBefore year - leapDaysBefore 1970)
     + daysBefore ! nat (m - 1) + (if isLeap year \<and> 3 \<le> m then 1 else 0) + (d - 1)"

fun Unix :: "Time \<Rightarrow> int64" where
  "Unix (Date year m d) = word_of_int (daysSinceUnixEpoch year m d * 86400)"

text \<open>
  The kinds of \<open>*ParseError\<close> that \<open>Parse\<close> can return under this layout: a chunk of
  the value that does not fit the layout, a month outside 1..12, text left after the
  year, and a day outside the month.
\<close>

datatype parseError = BadValue | MonthOutOfRange | ExtraText string | DayOutOfRange

definition time_Parse :: "string \<Rightarrow> parseError + Time" where
  "time_Parse v =
     (case getnum v False of
        Inl e \<Rightarrow> Inl BadValue
      | Inr (d, v1) \<Rightarrow>
     (case skip v1 ''.'' of
        Inl e \<Rightarrow> Inl BadValue
      | Inr v2 \<Rightarrow>
     (case getnum v2 False of
        Inl e \<Rightarrow> Inl BadValue
      | Inr (m, v3) \<Rightarrow>
          if m \<le> 0 \<or> 12 < m then Inl MonthOutOfRange
          else
     (case skip v3 ''.'' of
        Inl e \<Rightarrow> Inl BadValue
      | Inr v4 \<Rightarrow>
     (case (if length v4 < 4 \<or> \<not> isDigit v4 0 then Inl errBad else atoi (take 4 v4)) of
        Inl e \<Rightarrow> Inl BadValue
      | Inr year \<Rightarrow>
          if drop 4 v4 \<noteq> [] then Inl (ExtraText (drop 4 v4))
          else if d < 1 \<or> daysIn m year < d then Inl DayOutOfRange
          else Inr (Date year m d))))))"

subsection \<open>The upgrade gate\<close>

text \<open>
  A line handed to the logger: the function called, its format string and its arguments.
\<close>

datatype logArg = ArgString string | ArgParseError parseError | ArgScopedID profileSource string

datatype logLine = Warningf string "logArg list" | Infof string "logArg list"

text \<open>
  Modelled from the spec: the method \<open>ScopedID\<close> of \<open>Profile\<close>, whose definition is
  not among the source files. The spec describes it as a scoped-identifier formatter used only for
  diagnostic messages; its result is kept as the scope and the identifier it is formed
  from.
\<close>

definition ScopedID :: "'a Profile_scheme \<Rightarrow> logArg" where
  "ScopedID p = ArgScopedID (Source p) (ID p)"

text \<open>
  The result of both functions is \<open>(returned value, profile after the call, log after
  the call)\<close>.
\<close>

definition canBeUpgraded ::
  "'a Profile_scheme option \<Rightarrow> string \<Rightarrow> logLine list
     \<Rightarrow> panic + (bool \<times> 'a Profile_scheme option \<times> logLine list)" where
  "canBeUpgraded profile upgradeDate lg =
     (case time_Parse upgradeDate of
        Inl err \<Rightarrow>
          Inr (False, profile,
               lg @ [Warningf ''profile: failed to parse date %q: %s''
                       [ArgString upgradeDate, ArgParseError err]])
      | Inr upgradeTime \<Rightarrow>
          (case profile of
             None \<Rightarrow> Inl NilPointerDereference
           | Some p \<Rightarrow>
               if Created p <s Unix upgradeTime then
                 Inr (True, profile,
                      lg @ [Infof ''profile: upgrading special profile %s'' [ScopedID p]])
               else Inr (False, profile, lg)))"

definition specialProfileNeedsReset ::
  "'a Profile_scheme option \<Rightarrow> logLine list
     \<Rightarrow> panic + (bool \<times> 'a Profile_scheme option \<times> logLine list)" where
  "specialProfileNeedsReset profile lg =
     (case profile of
        None \<Rightarrow> Inr (False, profile, lg)
      | Some p \<Rightarrow>
          if Source p \<noteq> SourceLocal then Inr (False, profile, lg)
          else if 0 <s LastEdited p then Inr (False, profile, lg)
          else if ID p = SystemResolverProfileID then canBeUpgraded profile ''20.11.2021'' lg
          else if ID p = PortmasterAppProfileID then canBeUpgraded profile ''8.9.2021'' lg
          else Inr (False, profile, lg))"

subsection \<open>The catalog\<close>

text \<open>
  The constant block declares an identifier, a name and a description for each of six
  identities. \<open>Catalog\<close> lists them side by side, as the names of the constants pair
  them; the \<open>switch\<close> statements of the code are compared against it.
\<close>

definition Catalog :: "(string \<times> string \<times> string) list" where
  "Catalog =
     [(UnidentifiedProfileID, UnidentifiedProfileName, UnidentifiedProfileDescription),
      (SystemProfileID, SystemProfileName, SystemProfileDescription),
      (SystemResolverProfileID, SystemResolverProfileName, SystemResolverProfileDescription),
      (PortmasterProfileID, PortmasterProfileName, PortmasterProfileDescription),
      (PortmasterAppProfileID, PortmasterAppProfileName, PortmasterAppProfileDescription),
      (PortmasterNotifierProfileID, PortmasterNotifierProfileName,
       PortmasterNotifierProfileDescription)]"

section \<open>Properties\<close>

subsection \<open>Auxiliary facts\<close>

lemmas profileID_defs =
  UnidentifiedProfileID_def SystemProfileID_def SystemResolverProfileID_def
  PortmasterProfileID_def PortmasterAppProfileID_def PortmasterNotifierProfileID_def

lemmas profileName_defs =
  UnidentifiedProfileName_def SystemProfileName_def SystemResolverProfileName_def
  PortmasterProfileName_def PortmasterAppProfileName_def PortmasterNotifierProfileName_def

lemmas profileDescription_defs =
  UnidentifiedProfileDescription_def SystemProfileDescription_def
  SystemResolverProfileDescription_def PortmasterProfileDescription_def
  PortmasterAppProfileDescription_def PortmasterNotifierProfileDescription_def

lemma profileIDs_distinct:
  "distinct [UnidentifiedProfileID, SystemProfileID, SystemResolverProfileID,
             PortmasterProfileID, PortmasterAppProfileID, PortmasterNotifierProfileID]"
  by (simp add: profileID_defs)

text \<open>Looking an identifier up in the catalog: the six cases, or none.\<close>

lemma Catalog_Some:
  assumes "map_of Catalog i = Some (n, d)"
  obtains
    "i = UnidentifiedProfileID" "n = UnidentifiedProfileName"
      "d = UnidentifiedProfileDescription"
  | "i = SystemProfileID" "n = SystemProfileName" "d = SystemProfileDescription"
  | "i = SystemResolverProfileID" "n = SystemResolverProfileName"
      "d = SystemResolverProfileDescription"
  | "i = PortmasterProfileID" "n = PortmasterProfileName" "d = PortmasterProfileDescription"
  | "i = PortmasterAppProfileID" "n = PortmasterAppProfileName"
      "d = PortmasterAppProfileDescription"
  | "i = PortmasterNotifierProfileID" "n = PortmasterNotifierProfileName"
      "d = PortmasterNotifierProfileDescription"
  using assms by (auto simp: Catalog_def split: if_splits)

lemma Catalog_None:
  assumes "map_of Catalog i = None"
  shows "i \<noteq> UnidentifiedProfileID" "i \<noteq> SystemProfileID" "i \<noteq> SystemResolverProfileID"
    "i \<noteq> PortmasterProfileID" "i \<noteq> PortmasterAppProfileID"
    "i \<noteq> PortmasterNotifierProfileID"
  using assms by (auto simp: Catalog_def split: if_splits)

text \<open>What \<open>updateSpecialProfileMetadata\<close> does once the \<open>switch\<close> is decided.\<close>

lemma update_unrecognized:
  assumes "map_of Catalog (ID p) = None"
  shows "updateSpecialProfileMetadata (Some p) binaryPath = Inr (False, False, p)"
  using Catalog_None [OF assms] by (simp add: updateSpecialProfileMetadata_def)

lemma update_recognized:
  assumes "map_of Catalog (ID p) = Some (n, d)"
  shows "updateSpecialProfileMetadata (Some p) binaryPath =
           Inr (True, Name p \<noteq> n \<or> Description p \<noteq> d \<or> LinkedPath p \<noteq> binaryPath,
                p\<lparr>Name := n, Description := d, LinkedPath := binaryPath\<rparr>)"
  using assms
proof (cases rule: Catalog_Some)
  case 1
  then show ?thesis by (auto simp: updateSpecialProfileMetadata_def)
next
  case 2
  then show ?thesis by (auto simp: updateSpecialProfileMetadata_def profileID_defs)
next
  case 3
  then show ?thesis by (auto simp: updateSpecialProfileMetadata_def profileID_defs)
next
  case 4
  then show ?thesis by (auto simp: updateSpecialProfileMetadata_def profileID_defs)
next
  case 5
  then show ?thesis by (auto simp: updateSpecialProfileMetadata_def profileID_defs)
next
  case 6
  then show ?thesis by (auto simp: updateSpecialProfileMetadata_def profileID_defs)
qed

text \<open>The two dates of \<open>specialProfileNeedsReset\<close> parse, to these instants.\<close>

lemmas time_Parse_defs =
  time_Parse_def getnum_def isDigit_def digitValue_def atoi_def daysIn_def isLeap_def
  daysBefore_def

lemmas Unix_defs = daysSinceUnixEpoch_def leapDaysBefore_def daysBefore_def isLeap_def

lemma time_Parse_20_11_2021: "time_Parse ''20.11.2021'' = Inr (Date 2021 11 20)"
  by (simp add: time_Parse_defs)

lemma time_Parse_8_9_2021: "time_Parse ''8.9.2021'' = Inr (Date 2021 9 8)"
  by (simp add: time_Parse_defs)

lemma Unix_20_11_2021: "Unix (Date 2021 11 20) = 1637366400"
  by (simp add: Unix_defs)

lemma Unix_8_9_2021: "Unix (Date 2021 9 8) = 1631059200"
  by (simp add: Unix_defs)

lemma canBeUpgraded_20_11_2021:
  "canBeUpgraded (Some p) ''20.11.2021'' lg =
     Inr (Created p <s 1637366400, Some p,
          lg @ (if Created p <s 1637366400
                then [Infof ''profile: upgrading special profile %s'' [ScopedID p]] else []))"
  by (simp add: canBeUpgraded_def time_Parse_20_11_2021 Unix_20_11_2021 del: Unix.simps)

lemma canBeUpgraded_8_9_2021:
  "canBeUpgraded (Some p) ''8.9.2021'' lg =
     Inr (Created p <s 1631059200, Some p,
          lg @ (if Created p <s 1631059200
                then [Infof ''profile: upgrading special profile %s'' [ScopedID p]] else []))"
  by (simp add: canBeUpgraded_def time_Parse_8_9_2021 Unix_8_9_2021 del: Unix.simps)


lemma specialProfileNeedsReset_result:
  "specialProfileNeedsReset profile lg =
     (case profile of
        None \<Rightarrow> Inr (False, None, lg)
      | Some p \<Rightarrow>
          if Source p = SourceLocal \<and> LastEdited p \<le>s 0 \<and> ID p = SystemResolverProfileID
          then canBeUpgraded (Some p) ''20.11.2021'' lg
          else if Source p = SourceLocal \<and> LastEdited p \<le>s 0 \<and> ID p = PortmasterAppProfileID
          then canBeUpgraded (Some p) ''8.9.2021'' lg
          else Inr (False, Some p, lg))"
  by (auto simp: specialProfileNeedsReset_def split: option.splits)

subsection \<open>The factory: \<open>getSpecialProfile\<close>\<close>

text \<open>
  C1 (as amended). For every identity of the catalog, \<open>getSpecialProfile\<close>, run with
  the constructor \<open>New\<close>, returns a record with that identifier, the given linked path,
  \<open>Source\<close> Local, and \<open>Internal\<close> true exactly for the core service, the
  app and the notifier. The record's \<open>Name\<close> and \<open>Description\<close> are not set by
  the factory: they are empty, and it is \<open>updateSpecialProfileMetadata\<close>, applied to
  the record, that reports a change and sets them to the catalog entry.
\<close>

theorem getSpecialProfile_record:
  assumes "map_of Catalog profileID = Some (n, d)"
  shows "\<exists>p. getSpecialProfile (New now) profileID linkedPath = Some p
           \<and> ID p = profileID \<and> Source p = SourceLocal \<and> LinkedPath p = linkedPath
           \<and> Internal p = (profileID \<in> {PortmasterProfileID, PortmasterAppProfileID,
                                         PortmasterNotifierProfileID})
           \<and> Name p = [] \<and> Description p = []
           \<and> updateSpecialProfileMetadata (Some p) linkedPath =
               Inr (True, True, p\<lparr>Name := n, Description := d\<rparr>)"
proof -
  have nonempty: "n \<noteq> []"
    using assms by (cases rule: Catalog_Some) (simp_all add: profileName_defs)
  have factory: "\<exists>p. getSpecialProfile (New now) profileID linkedPath = Some p
           \<and> ID p = profileID \<and> Source p = SourceLocal \<and> LinkedPath p = linkedPath
           \<and> Internal p = (profileID \<in> {PortmasterProfileID, PortmasterAppProfileID,
                                         PortmasterNotifierProfileID})
           \<and> Name p = [] \<and> Description p = []"
    using assms
    by (cases rule: Catalog_Some) (simp_all add: getSpecialProfile_def New_def profileID_defs)
  then obtain p where p: "getSpecialProfile (New now) profileID linkedPath = Some p"
    "ID p = profileID" "Source p = SourceLocal" "LinkedPath p = linkedPath"
    "Internal p = (profileID \<in> {PortmasterProfileID, PortmasterAppProfileID,
                                  PortmasterNotifierProfileID})"
    "Name p = []" "Description p = []"
    by blast
  have "updateSpecialProfileMetadata (Some p) linkedPath =
          Inr (True, True, p\<lparr>Name := n, Description := d\<rparr>)"
    using update_recognized [of p n d linkedPath] assms p(2,4,6) nonempty by auto
  with p show ?thesis by blast
qed

theorem getSpecialProfile_record_witness:
  "\<exists>p. getSpecialProfile (New 1700000000) PortmasterAppProfileID ''/usr/bin/portmaster-app''
          = Some p
       \<and> Source p = SourceLocal \<and> Internal p \<and> Name p = []
       \<and> updateSpecialProfileMetadata (Some p) ''/usr/bin/portmaster-app'' =
           Inr (True, True, p\<lparr>Name := PortmasterAppProfileName,
                                Description := PortmasterAppProfileDescription\<rparr>)"
proof -
  have "map_of Catalog PortmasterAppProfileID =
          Some (PortmasterAppProfileName, PortmasterAppProfileDescription)"
    by (simp add: Catalog_def profileID_defs)
  from getSpecialProfile_record [OF this, of 1700000000 "''/usr/bin/portmaster-app''"]
  show ?thesis by auto
qed

text \<open>
  C1 as stated fails: the record that \<open>getSpecialProfile\<close> returns for the system
  identity does not carry the catalog's name.
\<close>

theorem getSpecialProfile_name_counterexample:
  "map_option Name (getSpecialProfile (New 1700000000) SystemProfileID ''/sbin/init'')
     \<noteq> Some SystemProfileName"
  by (simp add: getSpecialProfile_def New_def profileID_defs profileName_defs)

text \<open>
  C4. For the system-resolver identity, \<open>getSpecialProfile\<close> hands the constructor one
  settings bundle, whatever the constructor and the linked path: its default action is
  \<open>permit\<close>, its service endpoints allow Localhost and the LAN UDP ports 5353, 5355 and
  1900, its filter lists are the empty list, and it has no other option.
\<close>

theorem getSpecialProfile_systemResolver_settings:
  "\<exists>cfg. cfg CfgOptionDefaultActionKey = Some (StringValue ''permit'')
        \<and> cfg CfgOptionServiceEndpointsKey =
            Some (StringSlice [''+ Localhost'', ''+ LAN UDP/5353'', ''+ LAN UDP/5355'',
                               ''+ LAN UDP/1900''])
        \<and> cfg CfgOptionFilterListsKey = Some (StringSlice [])
        \<and> cfg CfgOptionEndpointsKey = None
        \<and> (\<forall>new linkedPath.
              getSpecialProfile new SystemResolverProfileID linkedPath =
                Some (new SourceLocal SystemResolverProfileID linkedPath (Some cfg)
                        :: 'a Profile_scheme))"
  unfolding getSpecialProfile_def
  by (rule exI [of _ "[CfgOptionDefaultActionKey \<mapsto> StringValue ''permit'',
                       CfgOptionServiceEndpointsKey \<mapsto>
                         StringSlice [''+ Localhost'', ''+ LAN UDP/5353'',
                                      ''+ LAN UDP/5355'', ''+ LAN UDP/1900''],
                       CfgOptionFilterListsKey \<mapsto> StringSlice []]"])
     (simp add: profileID_defs)

text \<open>
  C9. For the app identity \<open>getSpecialProfile\<close> hands the constructor a bundle with
  default action \<open>block\<close> and endpoints Localhost and .safing.io, for the notifier
  identity a bundle with default action \<open>block\<close> and endpoint Localhost, each with no
  other option; for the unidentified, system and core identities it hands it the nil
  bundle. The app, notifier and core records are then marked internal.
\<close>

theorem getSpecialProfile_other_settings:
  "(\<exists>cfg. cfg CfgOptionDefaultActionKey = Some (StringValue ''block'')
         \<and> cfg CfgOptionEndpointsKey = Some (StringSlice [''+ Localhost'', ''+ .safing.io''])
         \<and> cfg CfgOptionServiceEndpointsKey = None \<and> cfg CfgOptionFilterListsKey = None
         \<and> (\<forall>new linkedPath.
               getSpecialProfile new PortmasterAppProfileID linkedPath =
                 Some ((new SourceLocal PortmasterAppProfileID linkedPath (Some cfg)
                          :: 'a Profile_scheme)\<lparr>Internal := True\<rparr>)))
   \<and> (\<exists>cfg. cfg CfgOptionDefaultActionKey = Some (StringValue ''block'')
         \<and> cfg CfgOptionEndpointsKey = Some (StringSlice [''+ Localhost''])
         \<and> cfg CfgOptionServiceEndpointsKey = None \<and> cfg CfgOptionFilterListsKey = None
         \<and> (\<forall>new linkedPath.
               getSpecialProfile new PortmasterNotifierProfileID linkedPath =
                 Some ((new SourceLocal PortmasterNotifierProfileID linkedPath (Some cfg)
                          :: 'a Profile_scheme)\<lparr>Internal := True\<rparr>)))
   \<and> (\<forall>new linkedPath.
         getSpecialProfile new UnidentifiedProfileID linkedPath =
           Some (new SourceLocal UnidentifiedProfileID linkedPath None :: 'a Profile_scheme)
         \<and> getSpecialProfile new SystemProfileID linkedPath =
             Some (new SourceLocal SystemProfileID linkedPath None)
         \<and> getSpecialProfile new PortmasterProfileID linkedPath =
             Some ((new SourceLocal PortmasterProfileID linkedPath None)\<lparr>Internal := True\<rparr>))"
proof (intro conjI)
  show "\<exists>cfg. cfg CfgOptionDefaultActionKey = Some (StringValue ''block'')
         \<and> cfg CfgOptionEndpointsKey = Some (StringSlice [''+ Localhost'', ''+ .safing.io''])
         \<and> cfg CfgOptionServiceEndpointsKey = None \<and> cfg CfgOptionFilterListsKey = None
         \<and> (\<forall>new linkedPath.
               getSpecialProfile new PortmasterAppProfileID linkedPath =
                 Some ((new SourceLocal PortmasterAppProfileID linkedPath (Some cfg)
                          :: 'a Profile_scheme)\<lparr>Internal := True\<rparr>))"
    unfolding getSpecialProfile_def
    by (rule exI [of _ "[CfgOptionDefaultActionKey \<mapsto> StringValue ''block'',
                         CfgOptionEndpointsKey \<mapsto>
                           StringSlice [''+ Localhost'', ''+ .safing.io'']]"])
       (simp add: profileID_defs)
  show "\<exists>cfg. cfg CfgOptionDefaultActionKey = Some (StringValue ''block'')
         \<and> cfg CfgOptionEndpointsKey = Some (StringSlice [''+ Localhost''])
         \<and> cfg CfgOptionServiceEndpointsKey = None \<and> cfg CfgOptionFilterListsKey = None
         \<and> (\<forall>new linkedPath.
               getSpecialProfile new PortmasterNotifierProfileID linkedPath =
                 Some ((new SourceLocal PortmasterNotifierProfileID linkedPath (Some cfg)
                          :: 'a Profile_scheme)\<lparr>Internal := True\<rparr>))"
    unfolding getSpecialProfile_def
    by (rule exI [of _ "[CfgOptionDefaultActionKey \<mapsto> StringValue ''block'',
                         CfgOptionEndpointsKey \<mapsto> StringSlice [''+ Localhost'']]"])
       (simp add: profileID_defs)
  show "\<forall>new linkedPath.
         getSpecialProfile new UnidentifiedProfileID linkedPath =
           Some (new SourceLocal UnidentifiedProfileID linkedPath None :: 'a Profile_scheme)
         \<and> getSpecialProfile new SystemProfileID linkedPath =
             Some (new SourceLocal SystemProfileID linkedPath None)
         \<and> getSpecialProfile new PortmasterProfileID linkedPath =
             Some ((new SourceLocal PortmasterProfileID linkedPath None)\<lparr>Internal := True\<rparr>)"
    by (simp add: getSpecialProfile_def profileID_defs)
qed

subsection \<open>The synchronizer: \<open>updateSpecialProfileMetadata\<close>\<close>

text \<open>
  C3. For a profile whose identifier is one of the six of the catalog,
  \<open>updateSpecialProfileMetadata\<close> returns \<open>ok = true\<close>; after the call the
  profile's name and description are the catalog's and its linked path is the given
  path; and \<open>changed\<close> is true exactly when one of the three fields differed from
  that target before the call.
\<close>

theorem updateSpecialProfileMetadata_recognized:
  assumes "map_of Catalog (ID p) = Some (n, d)"
  shows "\<exists>p'. updateSpecialProfileMetadata (Some p) binaryPath =
                Inr (True, Name p \<noteq> n \<or> Description p \<noteq> d \<or> LinkedPath p \<noteq> binaryPath, p')
             \<and> Name p' = n \<and> Description p' = d \<and> LinkedPath p' = binaryPath"
  using update_recognized [OF assms, of binaryPath] by simp

theorem updateSpecialProfileMetadata_recognized_witness:
  "\<exists>p'. updateSpecialProfileMetadata
           (Some \<lparr>ID = SystemProfileID, Source = SourceLocal, Name = SystemProfileName,
                  Description = ''old text'', LinkedPath = ''/sbin/init'', Internal = False,
                  Settings = Map.empty, Created = 1600000000, LastEdited = 0\<rparr>)
           ''/sbin/init'' = Inr (True, True, p')
        \<and> Name p' = SystemProfileName \<and> Description p' = SystemProfileDescription
        \<and> LinkedPath p' = ''/sbin/init''"
proof -
  have "map_of Catalog SystemProfileID = Some (SystemProfileName, SystemProfileDescription)"
    by (simp add: Catalog_def profileID_defs)
  from updateSpecialProfileMetadata_recognized
         [of "\<lparr>ID = SystemProfileID, Source = SourceLocal, Name = SystemProfileName,
               Description = ''old text'', LinkedPath = ''/sbin/init'', Internal = False,
               Settings = Map.empty, Created = 1600000000, LastEdited = 0\<rparr>"
             SystemProfileName SystemProfileDescription "''/sbin/init''"] this
  show ?thesis by (simp add: SystemProfileDescription_def)
qed

text \<open>
  C5. \<open>updateSpecialProfileMetadata\<close> is idempotent: for every profile and linked
  path the call returns, and a second call on the resulting profile with the same path
  returns the same \<open>ok\<close>, \<open>changed = false\<close>, and the profile as it was.
\<close>

theorem updateSpecialProfileMetadata_idempotent:
  "\<exists>ok changed p'.
      updateSpecialProfileMetadata (Some p) binaryPath = Inr (ok, changed, p')
    \<and> updateSpecialProfileMetadata (Some p') binaryPath = Inr (ok, False, p')"
proof (cases "map_of Catalog (ID p)")
  case None
  then show ?thesis by (auto simp: update_unrecognized)
next
  case (Some e)
  then obtain n d where nd: "map_of Catalog (ID p) = Some (n, d)" by (cases e) simp
  let ?p' = "p\<lparr>Name := n, Description := d, LinkedPath := binaryPath\<rparr>"
  have "map_of Catalog (ID ?p') = Some (n, d)" using nd by simp
  from update_recognized [OF this, of binaryPath]
  have "updateSpecialProfileMetadata (Some ?p') binaryPath = Inr (True, False, ?p')" by simp
  with update_recognized [OF nd, of binaryPath] show ?thesis by auto
qed

text \<open>
  C6. For a profile whose identifier is not one of the six of the catalog,
  \<open>updateSpecialProfileMetadata\<close> returns \<open>(false, false)\<close> and leaves the profile
  as it was, every field of it.
\<close>

theorem updateSpecialProfileMetadata_unrecognized:
  assumes "ID p \<notin> fst ` set Catalog"
  shows "updateSpecialProfileMetadata (Some p) binaryPath = Inr (False, False, p)"
proof -
  from assms have "map_of Catalog (ID p) = None" by (simp add: map_of_eq_None_iff)
  then show ?thesis by (rule update_unrecognized)
qed

theorem updateSpecialProfileMetadata_unrecognized_witness:
  "updateSpecialProfileMetadata
     (Some \<lparr>ID = ''firefox'', Source = SourceLocal, Name = ''Firefox'', Description = [],
            LinkedPath = ''/usr/bin/firefox'', Internal = False, Settings = Map.empty,
            Created = 1600000000, LastEdited = 1600000500\<rparr>)
     ''/opt/firefox''
   = Inr (False, False,
          \<lparr>ID = ''firefox'', Source = SourceLocal, Name = ''Firefox'', Description = [],
           LinkedPath = ''/usr/bin/firefox'', Internal = False, Settings = Map.empty,
           Created = 1600000000, LastEdited = 1600000500\<rparr>)"
proof -
  have "ID \<lparr>ID = ''firefox'', Source = SourceLocal, Name = ''Firefox'', Description = [],
            LinkedPath = ''/usr/bin/firefox'', Internal = False, Settings = Map.empty,
            Created = 1600000000, LastEdited = 1600000500\<rparr> \<notin> fst ` set Catalog"
    by (simp add: Catalog_def profileID_defs)
  then show ?thesis by (rule updateSpecialProfileMetadata_unrecognized)
qed

text \<open>
  C7. For every profile and linked path, \<open>updateSpecialProfileMetadata\<close> returns with
  the profile's \<open>Settings\<close> as they were, and with every field other than \<open>Name\<close>,
  \<open>Description\<close> and \<open>LinkedPath\<close> as it was (including the fields of the record's
  extension): the profile after the call is the profile before it with these three
  fields set.
\<close>

theorem updateSpecialProfileMetadata_frame:
  "\<exists>ok changed p'.
      updateSpecialProfileMetadata (Some p) binaryPath = Inr (ok, changed, p')
    \<and> Settings p' = Settings p
    \<and> p' = p\<lparr>Name := Name p', Description := Description p', LinkedPath := LinkedPath p'\<rparr>"
proof (cases "map_of Catalog (ID p)")
  case None
  then show ?thesis by (auto simp: update_unrecognized)
next
  case (Some e)
  then obtain n d where "map_of Catalog (ID p) = Some (n, d)" by (cases e) simp
  from update_recognized [OF this, of binaryPath] show ?thesis by auto
qed

subsection \<open>The upgrade gate: \<open>specialProfileNeedsReset\<close> and \<open>canBeUpgraded\<close>\<close>

text \<open>
  C2 (as amended). \<open>specialProfileNeedsReset\<close> always returns, and it returns true
  if and only if the profile is not nil, its \<open>Source\<close> is Local, its \<open>LastEdited\<close>
  is not greater than 0, and either its identifier is the system resolver's and
  \<open>Created\<close> is strictly before 1637366400 (20 November 2021, 00:00 UTC), or its
  identifier is the app's and \<open>Created\<close> is strictly before 1631059200
  (8 September 2021, 00:00 UTC). Both timestamps are signed 64-bit values.
\<close>

theorem specialProfileNeedsReset_iff:
  "\<exists>lg'. specialProfileNeedsReset profile lg =
      Inr ((case profile of
              None \<Rightarrow> False
            | Some p \<Rightarrow>
                Source p = SourceLocal \<and> LastEdited p \<le>s 0
                \<and> (ID p = SystemResolverProfileID \<and> Created p <s 1637366400
                    \<or> ID p = PortmasterAppProfileID \<and> Created p <s 1631059200)),
           profile, lg')"
proof (cases profile)
  case None
  then show ?thesis by (simp add: specialProfileNeedsReset_result)
next
  case (Some p)
  have "SystemResolverProfileID \<noteq> PortmasterAppProfileID" by (simp add: profileID_defs)
  with Some show ?thesis
    by (auto simp: specialProfileNeedsReset_result canBeUpgraded_20_11_2021
          canBeUpgraded_8_9_2021)
qed

theorem specialProfileNeedsReset_iff_witness:
  "\<exists>lg'. specialProfileNeedsReset
           (Some \<lparr>ID = PortmasterAppProfileID, Source = SourceLocal, Name = [],
                  Description = [], LinkedPath = [], Internal = True,
                  Settings = Map.empty, Created = 1600000000, LastEdited = 0\<rparr>) []
         = Inr (True,
                Some \<lparr>ID = PortmasterAppProfileID, Source = SourceLocal, Name = [],
                      Description = [], LinkedPath = [], Internal = True,
                      Settings = Map.empty, Created = 1600000000, LastEdited = 0\<rparr>, lg')"
  using specialProfileNeedsReset_iff
    [of "Some \<lparr>ID = PortmasterAppProfileID, Source = SourceLocal, Name = [],
                Description = [], LinkedPath = [], Internal = True,
                Settings = Map.empty, Created = 1600000000, LastEdited = 0\<rparr>" "[]"]
  by simp

text \<open>
  C2 as stated fails: a local system-resolver profile created before the cutoff, with a
  negative \<open>LastEdited\<close>, needs a reset although its \<open>LastEdited\<close> is not 0.
\<close>

theorem specialProfileNeedsReset_counterexample:
  "specialProfileNeedsReset
     (Some \<lparr>ID = SystemResolverProfileID, Source = SourceLocal, Name = [], Description = [],
            LinkedPath = [], Internal = False, Settings = Map.empty,
            Created = 1600000000, LastEdited = - 1\<rparr>) []
   = Inr (True,
          Some \<lparr>ID = SystemResolverProfileID, Source = SourceLocal, Name = [],
                Description = [], LinkedPath = [], Internal = False, Settings = Map.empty,
                Created = 1600000000, LastEdited = - 1\<rparr>,
          [Infof ''profile: upgrading special profile %s''
             [ArgScopedID SourceLocal SystemResolverProfileID]])
   \<and> LastEdited \<lparr>ID = SystemResolverProfileID, Source = SourceLocal, Name = [],
                  Description = [], LinkedPath = [], Internal = False,
                  Settings = Map.empty, Created = 1600000000, LastEdited = - 1\<rparr> \<noteq> 0"
  by (simp add: specialProfileNeedsReset_result canBeUpgraded_20_11_2021 ScopedID_def)

text \<open>
  C8. If the date handed to \<open>canBeUpgraded\<close> does not parse under the layout, the
  function returns false, logs one warning with the date and the error, and leaves the
  profile as it was. That is the only failure: when the date parses, \<open>canBeUpgraded\<close>
  on a profile returns the comparison of \<open>Created\<close> with the cutoff, logging no
  warning; and \<open>specialProfileNeedsReset\<close> returns for every argument, nil included.
\<close>

theorem canBeUpgraded_parse_failure:
  "(\<forall>err. time_Parse upgradeDate = Inl err \<longrightarrow>
       canBeUpgraded profile upgradeDate lg =
         Inr (False, profile,
              lg @ [Warningf ''profile: failed to parse date %q: %s''
                      [ArgString upgradeDate, ArgParseError err]]))
   \<and> (\<forall>upgradeTime. time_Parse upgradeDate = Inr upgradeTime \<longrightarrow>
       canBeUpgraded (Some p) upgradeDate lg =
         Inr (Created p <s Unix upgradeTime, Some p,
              lg @ (if Created p <s Unix upgradeTime
                    then [Infof ''profile: upgrading special profile %s'' [ScopedID p]]
                    else [])))
   \<and> (\<exists>r lg'. specialProfileNeedsReset profile lg = Inr (r, profile, lg'))"
proof (intro conjI allI impI)
  fix err assume "time_Parse upgradeDate = Inl err"
  then show "canBeUpgraded profile upgradeDate lg =
         Inr (False, profile,
              lg @ [Warningf ''profile: failed to parse date %q: %s''
                      [ArgString upgradeDate, ArgParseError err]])"
    by (simp add: canBeUpgraded_def)
next
  fix upgradeTime assume "time_Parse upgradeDate = Inr upgradeTime"
  then show "canBeUpgraded (Some p) upgradeDate lg =
         Inr (Created p <s Unix upgradeTime, Some p,
              lg @ (if Created p <s Unix upgradeTime
                    then [Infof ''profile: upgrading special profile %s'' [ScopedID p]]
                    else []))"
    by (simp add: canBeUpgraded_def)
next
  show "\<exists>r lg'. specialProfileNeedsReset profile lg = Inr (r, profile, lg')"
    by (cases profile)
       (auto simp: specialProfileNeedsReset_result canBeUpgraded_20_11_2021
          canBeUpgraded_8_9_2021)
qed

theorem canBeUpgraded_parse_failure_witness:
  "time_Parse ''2021-11-20'' = Inl BadValue
   \<and> canBeUpgraded
       (Some \<lparr>ID = SystemResolverProfileID, Source = SourceLocal, Name = [],
              Description = [], LinkedPath = [], Internal = False, Settings = Map.empty,
              Created = 1600000000, LastEdited = 0\<rparr>) ''2021-11-20'' []
     = Inr (False,
            Some \<lparr>ID = SystemResolverProfileID, Source = SourceLocal, Name = [],
                  Description = [], LinkedPath = [], Internal = False,
                  Settings = Map.empty, Created = 1600000000, LastEdited = 0\<rparr>,
            [Warningf ''profile: failed to parse date %q: %s''
               [ArgString ''2021-11-20'', ArgParseError BadValue]])
   \<and> time_Parse ''1.1.2022'' = Inr (Date 2022 1 1)
   \<and> canBeUpgraded
       (Some \<lparr>ID = SystemResolverProfileID, Source = SourceLocal, Name = [],
              Description = [], LinkedPath = [], Internal = False, Settings = Map.empty,
              Created = 1600000000, LastEdited = 0\<rparr>) ''1.1.2022'' []
     = Inr (True,
            Some \<lparr>ID = SystemResolverProfileID, Source = SourceLocal, Name = [],
                  Description = [], LinkedPath = [], Internal = False,
                  Settings = Map.empty, Created = 1600000000, LastEdited = 0\<rparr>,
            [Infof ''profile: upgrading special profile %s''
               [ArgScopedID SourceLocal SystemResolverProfileID]])"
proof -
  have bad: "time_Parse ''2021-11-20'' = Inl BadValue"
    by (simp add: time_Parse_defs)
  have good: "time_Parse ''1.1.2022'' = Inr (Date 2022 1 1)"
    by (simp add: time_Parse_defs)
  have unix: "Unix (Date 2022 1 1) = 1640995200"
    by (simp add: Unix_defs)
  note gate = canBeUpgraded_parse_failure
    [of _ "Some \<lparr>ID = SystemResolverProfileID, Source = SourceLocal, Name = [],
                 Description = [], LinkedPath = [], Internal = False,
                 Settings = Map.empty, Created = 1600000000, LastEdited = 0\<rparr>" "[]"
        "\<lparr>ID = SystemResolverProfileID, Source = SourceLocal, Name = [],
          Description = [], LinkedPath = [], Internal = False,
          Settings = Map.empty, Created = 1600000000, LastEdited = 0\<rparr>"]
  from gate [of "''2021-11-20''"] bad gate [of "''1.1.2022''"] good unix
  show ?thesis by (simp add: ScopedID_def del: Unix.simps)
qed

text \<open>
  C10. \<open>specialProfileNeedsReset\<close> is a query: for every profile, nil included, it
  returns, and the profile after the call is the profile before it, whether true or
  false is returned. So is its helper \<open>canBeUpgraded\<close>, whenever it returns.
\<close>

theorem specialProfileNeedsReset_pure:
  "(\<exists>r lg'. specialProfileNeedsReset profile lg = Inr (r, profile, lg'))
   \<and> (case canBeUpgraded profile upgradeDate lg of
         Inl e \<Rightarrow> profile = None
       | Inr (r, profile', lg') \<Rightarrow> profile' = profile)"
proof
  show "\<exists>r lg'. specialProfileNeedsReset profile lg = Inr (r, profile, lg')"
    by (cases profile)
       (auto simp: specialProfileNeedsReset_result canBeUpgraded_20_11_2021
          canBeUpgraded_8_9_2021)
  show "case canBeUpgraded profile upgradeDate lg of
          Inl e \<Rightarrow> profile = None
        | Inr (r, profile', lg') \<Rightarrow> profile' = profile"
    by (simp add: canBeUpgraded_def split: sum.splits option.splits)
qed

theorem specialProfileNeedsReset_pure_witness:
  "\<exists>r lg'. specialProfileNeedsReset
             (Some \<lparr>ID = SystemResolverProfileID, Source = SourceLocal, Name = [],
                    Description = [], LinkedPath = [], Internal = False,
                    Settings = Map.empty, Created = 1600000000, LastEdited = 0\<rparr>) []
           = Inr (r,
                  Some \<lparr>ID = SystemResolverProfileID, Source = SourceLocal, Name = [],
                        Description = [], LinkedPath = [], Internal = False,
                        Settings = Map.empty, Created = 1600000000, LastEdited = 0\<rparr>, lg')"
  using specialProfileNeedsReset_pure
    [of "Some \<lparr>ID = SystemResolverProfileID, Source = SourceLocal, Name = [],
                Description = [], LinkedPath = [], Internal = False,
                Settings = Map.empty, Created = 1600000000, LastEdited = 0\<rparr>" "[]"]
  by blast

end
